theory Spec2Isabelle
  imports Complex_Main
begin

section \<open>Vectors and rotations\<close>

text \<open>
  The C++ \<^verbatim>\<open>double\<close> is modelled by \<^typ>\<open>real\<close>: arithmetic is exact, there is
  no rounding, no infinity and no NaN. \<^verbatim>\<open>Eigen::Vector3d\<close> is a triple of reals and
  \<^verbatim>\<open>Eigen::Vector4d\<close> a quadruple.
\<close>

type_synonym vec3 = "real \<times> real \<times> real"

type_synonym vec4 = "real \<times> real \<times> real \<times> real"

definition UnitX :: vec3 where
  "UnitX = (1, 0, 0)"

fun vsub :: "vec3 \<Rightarrow> vec3 \<Rightarrow> vec3" where
  "vsub (a1, a2, a3) (b1, b2, b3) = (a1 - b1, a2 - b2, a3 - b3)"

fun vadd :: "vec3 \<Rightarrow> vec3 \<Rightarrow> vec3" where
  "vadd (a1, a2, a3) (b1, b2, b3) = (a1 + b1, a2 + b2, a3 + b3)"

fun vscale :: "real \<Rightarrow> vec3 \<Rightarrow> vec3" where
  "vscale k (a1, a2, a3) = (k * a1, k * a2, k * a3)"

fun dot :: "vec3 \<Rightarrow> vec3 \<Rightarrow> real" where
  "dot (a1, a2, a3) (b1, b2, b3) = a1 * b1 + a2 * b2 + a3 * b3"

fun cross :: "vec3 \<Rightarrow> vec3 \<Rightarrow> vec3" where
  "cross (a1, a2, a3) (b1, b2, b3) = (a2 * b3 - a3 * b2, a3 * b1 - a1 * b3, a1 * b2 - a2 * b1)"

definition squaredNorm :: "vec3 \<Rightarrow> real" where
  "squaredNorm v = dot v v"

definition vnorm :: "vec3 \<Rightarrow> real" where
  "vnorm v = sqrt (squaredNorm v)"

text \<open>
  Eigen's \<^verbatim>\<open>normalized()\<close> divides by the norm when the squared norm is positive and
  returns the vector unchanged otherwise.
\<close>

definition normalized :: "vec3 \<Rightarrow> vec3" where
  "normalized v = (if squaredNorm v > 0 then vscale (1 / sqrt (squaredNorm v)) v else v)"

text \<open>
  \<^verbatim>\<open>Eigen::Quaterniond q(w, x, y, z)\<close> applied to a vector, \<^verbatim>\<open>q * v\<close>, is Eigen's
  \<^verbatim>\<open>v + w * uv + vec \<times> uv\<close> with \<^verbatim>\<open>uv = 2 * (vec \<times> v)\<close> and \<^verbatim>\<open>vec = (x, y, z)\<close>.
\<close>

fun quat_rotate :: "vec4 \<Rightarrow> vec3 \<Rightarrow> vec3" where
  "quat_rotate (w, x, y, z) v =
     (let uv = vscale 2 (cross (x, y, z) v)
      in vadd (vadd v (vscale w uv)) (cross (x, y, z) uv))"

declare quat_rotate.simps [simp del]

section \<open>Trajectory\<close>

text \<open>
  Modelled from the spec: \<^verbatim>\<open>Trajectory<5>\<close> is declared in
  \<^verbatim>\<open>gcopter/trajectory.hpp\<close>, which is not among the sources. The spec describes it as
  a piecewise, time-parameterised curve over a bounded duration that exposes its position
  at a query time and its total duration. A piece is its duration together with its
  position as a function of the piece's local time; a trajectory is the list of its pieces.
  The position at a time is looked up in the piece that contains it; the last piece
  answers every later time. The position of a trajectory without pieces is undefined in
  the program (the caller tests \<^verbatim>\<open>getPieceNum() > 0\<close> first); here it is the origin.
\<close>

type_synonym piece = "real \<times> (real \<Rightarrow> vec3)"

type_synonym trajectory = "piece list"

definition getPieceNum :: "trajectory \<Rightarrow> nat" where
  "getPieceNum tr = length tr"

definition getTotalDuration :: "trajectory \<Rightarrow> real" where
  "getTotalDuration tr = sum_list (map fst tr)"

fun getPos :: "trajectory \<Rightarrow> real \<Rightarrow> vec3" where
  "getPos [] t = (0, 0, 0)"
| "getPos [p] t = snd p t"
| "getPos (p # ps) t = (if t > fst p then getPos ps (t - fst p) else snd p t)"

definition traj_clear :: "trajectory \<Rightarrow> trajectory" where
  "traj_clear tr = []"

section \<open>The checker \<^verbatim>\<open>pa_checker::Pa_checker\<close>\<close>

record pa_checker =
  progress_t :: real
  a_max :: real
  max_dist :: real
  safe :: bool
  angle :: real

definition Pa_checker :: "real \<Rightarrow> real \<Rightarrow> real \<Rightarrow> real \<Rightarrow> bool \<Rightarrow> pa_checker" where
  "Pa_checker progress alpha amax maxdist safeFlag =
     \<lparr>progress_t = progress, a_max = amax, max_dist = maxdist, safe = safeFlag, angle = alpha\<rparr>"

text \<open>
  The \<^verbatim>\<open>for\<close> loop of \<^verbatim>\<open>check\<close>, entered with the loop variable \<open>t\<close>: while
  \<open>t\<close> is at most the total duration, a sample inside the cone and the range moves
  \<open>progress_t\<close> to \<open>t\<close> and the loop goes on at \<open>t + 0.05\<close>; any other sample
  stores the stopping-distance decision in \<open>safe\<close> and leaves the loop.

  The loop variable and the decision are exact reals here. In the program every
  \<^verbatim>\<open>t += 0.05\<close> is rounded to a double, so the sample times of a call, and the number
  of samples within a given duration, can differ from the ones of this function, and the
  decision of line 49 is rounded, can underflow and can be a NaN comparison. The statements
  below that hold for all inputs are therefore about one sample at whatever time the loop
  variable has, or about the order of the markers; what is stored in \<open>safe\<close> is
  stated at concrete inputs only.
\<close>

function scan :: "trajectory \<Rightarrow> vec3 \<Rightarrow> vec3 \<Rightarrow> real \<Rightarrow> pa_checker \<Rightarrow> real \<Rightarrow> pa_checker" where
  "scan traj h pos speed pc t =
     (if t \<le> getTotalDuration traj then
        (let check_pos = vsub (getPos traj t) pos;
             unit_check = normalized check_pos
         in if dot h unit_check > cos (angle pc / 2) \<and> dot h check_pos \<le> max_dist pc
            then scan traj h pos speed (pc\<lparr>progress_t := t\<rparr>) (t + 0.05)
            else (let s = vnorm (vsub (getPos traj (progress_t pc)) pos)
                  in pc\<lparr>safe := (if speed * speed - 2 * a_max pc * s > 0 then False else True)\<rparr>))
      else pc)"
  by pat_completeness auto
termination
proof (relation "measure (\<lambda>(traj, h, pos, speed, pc, t). nat (\<lfloor>(getTotalDuration traj - t) * 20\<rfloor> + 1))")
  show "wf (measure (\<lambda>(traj, h, pos, speed, pc, t). nat (\<lfloor>(getTotalDuration traj - t) * 20\<rfloor> + 1)))"
    by simp
next
  fix traj :: trajectory and h pos :: vec3 and speed :: real and pc :: pa_checker and t :: real
  assume le: "t \<le> getTotalDuration traj"
  have "(getTotalDuration traj - (t + 0.05)) * 20 = (getTotalDuration traj - t) * 20 - 1"
    by (simp add: algebra_simps)
  then have "\<lfloor>(getTotalDuration traj - (t + 0.05)) * 20\<rfloor> = \<lfloor>(getTotalDuration traj - t) * 20\<rfloor> - 1"
    by (simp only: floor_diff_one)
  moreover have "0 \<le> \<lfloor>(getTotalDuration traj - t) * 20\<rfloor>"
    using le by simp
  ultimately show "((traj, h, pos, speed, pc\<lparr>progress_t := t\<rparr>, t + 0.05), (traj, h, pos, speed, pc, t))
      \<in> measure (\<lambda>(traj, h, pos, speed, pc, t). nat (\<lfloor>(getTotalDuration traj - t) * 20\<rfloor> + 1))"
    by simp
qed

declare scan.simps [simp del]

definition check :: "pa_checker \<Rightarrow> trajectory \<Rightarrow> vec4 \<Rightarrow> vec3 \<Rightarrow> real \<Rightarrow> real \<Rightarrow> pa_checker" where
  "check pc traj quat pos speed delta =
     (let pc1 = (if progress_t pc \<le> delta then pc\<lparr>progress_t := delta\<rparr> else pc);
          h = normalized (quat_rotate quat UnitX)
      in scan traj h pos speed pc1 (progress_t pc1 + 0.01))"

definition getProgress :: "pa_checker \<Rightarrow> real" where
  "getProgress pc = progress_t pc"

definition getSafeFlag :: "pa_checker \<Rightarrow> bool" where
  "getSafeFlag pc = safe pc"

definition clear :: "pa_checker \<Rightarrow> pa_checker" where
  "clear pc = pc\<lparr>progress_t := 0, safe := False\<rparr>"

text \<open>
  The condition of the \<^verbatim>\<open>if\<close> in the loop of \<^verbatim>\<open>check\<close>, named for the statements
  below: the sample of the trajectory at time \<open>t\<close> is inside the cone and the range.
\<close>

definition sample_in_view :: "pa_checker \<Rightarrow> trajectory \<Rightarrow> vec3 \<Rightarrow> vec3 \<Rightarrow> real \<Rightarrow> bool" where
  "sample_in_view pc traj h pos t =
     (dot h (normalized (vsub (getPos traj t) pos)) > cos (angle pc / 2)
      \<and> dot h (vsub (getPos traj t) pos) \<le> max_dist pc)"

text \<open>
  The stopping-distance test of \<^verbatim>\<open>check\<close>, evaluated at the progress marker of a
  checker state.
\<close>

definition stopping_test :: "pa_checker \<Rightarrow> trajectory \<Rightarrow> vec3 \<Rightarrow> real \<Rightarrow> bool" where
  "stopping_test pc traj pos speed =
     (if speed * speed - 2 * a_max pc * vnorm (vsub (getPos traj (progress_t pc)) pos) > 0
      then False else True)"

text \<open>
  The caller's loop: \<^verbatim>\<open>process\<close> calls \<^verbatim>\<open>check\<close> once per tick on the installed
  trajectory. A tick is the orientation, the position, the speed and the elapsed time;
  the result lists the checker's state after each call.
\<close>

type_synonym tick = "vec4 \<times> vec3 \<times> real \<times> real"

fun check_ticks :: "pa_checker \<Rightarrow> trajectory \<Rightarrow> tick list \<Rightarrow> pa_checker list" where
  "check_ticks pc traj [] = []"
| "check_ticks pc traj ((quat, pos, speed, delta) # ticks) =
     (let pc' = check pc traj quat pos speed delta in pc' # check_ticks pc' traj ticks)"

fun elapsed :: "tick \<Rightarrow> real" where
  "elapsed (quat, pos, speed, delta) = delta"

section \<open>The planner \<^verbatim>\<open>GlobalPlanner\<close>\<close>

text \<open>
  Of \<^verbatim>\<open>Config\<close>, the fields that \<^verbatim>\<open>targetCallBack\<close> reads; the others are handed to
  the optimizer. The constructor of \<^verbatim>\<open>GlobalPlanner\<close> reads \<^verbatim>\<open>mapBound[0]\<close> to
  \<^verbatim>\<open>mapBound[5]\<close>.
\<close>

record config =
  mapBound :: "real list"
  dilateRadius :: real

text \<open>
  Modelled from the spec: \<^verbatim>\<open>voxel_map::VoxelMap\<close> is declared in
  \<^verbatim>\<open>gcopter/voxel_map.hpp\<close>, which is not among the sources. The spec gives its
  interface as \<^verbatim>\<open>query(point) -> occupied:boolean\<close>.
\<close>

record voxel_map =
  query :: "vec3 \<Rightarrow> bool"

text \<open>Of \<^verbatim>\<open>geometry_msgs::PoseStamped\<close>, the fields that \<^verbatim>\<open>targetCallBack\<close> reads.\<close>

record pose_stamped =
  position_x :: real
  position_y :: real
  orientation_z :: real

text \<open>\<^verbatim>\<open>Eigen::MatrixX4d\<close>: the rows of a polytope's half-space description.\<close>

type_synonym polytope = "vec4 list"

text \<open>The value returned by \<^verbatim>\<open>optimize\<close>, tested with \<^verbatim>\<open>std::isinf\<close>.\<close>

datatype cost = Finite real | Infinite

fun isinf :: "cost \<Rightarrow> bool" where
  "isinf (Finite c) = False"
| "isinf Infinite = True"

text \<open>
  The collaborators outside the sources are parameters of the model: the route search
  \<^verbatim>\<open>sfc_gen::planPath\<close>, the corridor construction \<^verbatim>\<open>sfc_gen::convexCover\<close> and
  \<^verbatim>\<open>sfc_gen::shortCut\<close>, the optimizer's \<^verbatim>\<open>gcopter.setup\<close> and \<^verbatim>\<open>gcopter.optimize\<close> (which
  returns the cost and writes the trajectory it is given), and the clock
  \<^verbatim>\<open>ros::Time::now().toSec()\<close>.
\<close>

record planner_env =
  planPath :: "vec3 \<Rightarrow> vec3 \<Rightarrow> voxel_map \<Rightarrow> vec3 list"
  convexCover :: "vec3 list \<Rightarrow> voxel_map \<Rightarrow> polytope list"
  shortCut :: "polytope list \<Rightarrow> polytope list"
  gcopter_setup :: "vec3 \<Rightarrow> vec3 \<Rightarrow> polytope list \<Rightarrow> bool"
  gcopter_optimize :: "vec3 \<Rightarrow> vec3 \<Rightarrow> polytope list \<Rightarrow> trajectory \<Rightarrow> cost \<times> trajectory"
  now :: real

text \<open>The calls to collaborators that the planner makes, recorded in the order made.\<close>

datatype call =
    CallPlanPath vec3 vec3
  | CallConvexCover
  | CallShortCut
  | CallVisualizePolytope
  | CallSetup
  | CallOptimize
  | CallVisualize
  | CallVisualizeStartGoal vec3 nat
  | CallRosWarn

text \<open>
  The fields of \<^verbatim>\<open>GlobalPlanner\<close> that \<^verbatim>\<open>plan\<close> and \<^verbatim>\<open>targetCallBack\<close> read or
  write. \<open>calls\<close> is not a field of the class: it records the calls made to the
  collaborators.
\<close>

record global_planner =
  config :: config
  mapInitialized :: bool
  voxelMap :: voxel_map
  startGoal :: "vec3 list"
  traj :: trajectory
  paChecker :: pa_checker
  trajStamp :: real
  calls :: "call list"

definition called :: "call \<Rightarrow> global_planner \<Rightarrow> global_planner" where
  "called c gp = gp\<lparr>calls := calls gp @ [c]\<rparr>"

definition plan :: "planner_env \<Rightarrow> global_planner \<Rightarrow> global_planner" where
  "plan env gp =
     (if length (startGoal gp) = 2 then
        (let route = planPath env (startGoal gp ! 0) (startGoal gp ! 1) (voxelMap gp);
             gp1 = called (CallPlanPath (startGoal gp ! 0) (startGoal gp ! 1)) gp;
             hPolys = shortCut env (convexCover env route (voxelMap gp));
             gp2 = called CallShortCut (called CallConvexCover gp1)
         in if length route > 1 then
              (let gp3 = called CallVisualizePolytope gp2;
                   gp4 = gp3\<lparr>traj := traj_clear (traj gp3)\<rparr>;
                   gp5 = gp4\<lparr>paChecker := clear (paChecker gp4)\<rparr>
               in if \<not> gcopter_setup env (hd route) (last route) hPolys then called CallSetup gp5
                  else (case gcopter_optimize env (hd route) (last route) hPolys (traj gp5) of
                          (c, tr) \<Rightarrow>
                            (let gp6 = (called CallOptimize (called CallSetup gp5))\<lparr>traj := tr\<rparr>
                             in if isinf c then gp6
                                else if getPieceNum (traj gp6) > 0
                                     then called CallVisualize (gp6\<lparr>trajStamp := now env\<rparr>)
                                     else gp6)))
            else gp2)
      else gp)"

definition targetCallBack :: "planner_env \<Rightarrow> global_planner \<Rightarrow> pose_stamped \<Rightarrow> global_planner" where
  "targetCallBack env gp msg =
     (if mapInitialized gp then
        (let gp1 = (if length (startGoal gp) \<ge> 2 then gp\<lparr>startGoal := []\<rparr> else gp);
             zGoal = mapBound (config gp1) ! 4 + dilateRadius (config gp1)
                     + \<bar>orientation_z msg\<bar>
                       * (mapBound (config gp1) ! 5 - mapBound (config gp1) ! 4
                          - 2 * dilateRadius (config gp1));
             goal = (position_x msg, position_y msg, zGoal);
             gp2 = (if \<not> query (voxelMap gp1) goal
                    then (called (CallVisualizeStartGoal goal (length (startGoal gp1))) gp1)
                           \<lparr>startGoal := startGoal gp1 @ [goal]\<rparr>
                    else called CallRosWarn gp1)
         in plan env gp2)
      else gp)"

section \<open>Example inputs\<close>

text \<open>
  The inputs at which the statements below are evaluated: a single-piece trajectory along
  the x axis at unit speed, a map without obstacles and a map that is occupied everywhere,
  collaborators whose \<^verbatim>\<open>gcopter.setup\<close> fails, collaborators whose
  \<^verbatim>\<open>gcopter.optimize\<close> returns an infinite cost, a planner that is flying a trajectory
  with two goals buffered, a goal message, and the orientation that turns the body's
  forward axis onto the y axis (a third of a turn about the diagonal), at a right angle to
  the line.
\<close>

definition line_traj :: "real \<Rightarrow> trajectory" where
  "line_traj T = [(T, \<lambda>t. (t, 0, 0))]"

definition free_map :: voxel_map where
  "free_map = \<lparr>query = (\<lambda>p. False)\<rparr>"

definition occupied_map :: voxel_map where
  "occupied_map = \<lparr>query = (\<lambda>p. True)\<rparr>"

definition failing_setup_env :: planner_env where
  "failing_setup_env =
     \<lparr>planPath = (\<lambda>a b m. [a, b]), convexCover = (\<lambda>r m. []), shortCut = (\<lambda>hs. hs),
      gcopter_setup = (\<lambda>a b hs. False), gcopter_optimize = (\<lambda>a b hs tr. (Infinite, tr)), now = 100\<rparr>"

definition infinite_cost_env :: planner_env where
  "infinite_cost_env =
     \<lparr>planPath = (\<lambda>a b m. [a, b]), convexCover = (\<lambda>r m. []), shortCut = (\<lambda>hs. hs),
      gcopter_setup = (\<lambda>a b hs. True), gcopter_optimize = (\<lambda>a b hs tr. (Infinite, tr)), now = 100\<rparr>"

definition flying_planner :: "voxel_map \<Rightarrow> global_planner" where
  "flying_planner m =
     \<lparr>config = \<lparr>mapBound = [-25, 25, -25, 25, 0, 5], dilateRadius = 0.5\<rparr>,
      mapInitialized = True, voxelMap = m, startGoal = [(0, 0, 1), (5, 0, 1)],
      traj = line_traj 10, paChecker = Pa_checker 3 pi 4 4 True, trajStamp = 50, calls = []\<rparr>"

definition goal_msg :: pose_stamped where
  "goal_msg = \<lparr>position_x = 2, position_y = 3, orientation_z = 0\<rparr>"


section \<open>Facts about the scan loop\<close>

text \<open>
  One iteration of the loop, and the three ways it can go: the sample is accepted and the
  loop goes on, the sample is refused and the loop ends with the decision stored, or the
  loop variable has passed the total duration and the loop ends with nothing stored.
\<close>

lemma scan_step:
  "scan tr h pos speed pc t =
     (if t \<le> getTotalDuration tr then
        (if sample_in_view pc tr h pos t
         then scan tr h pos speed (pc\<lparr>progress_t := t\<rparr>) (t + 0.05)
         else pc\<lparr>safe := stopping_test pc tr pos speed\<rparr>)
      else pc)"
  by (subst scan.simps) (simp add: sample_in_view_def stopping_test_def Let_def)

lemma sample_in_view_progress [simp]:
  "sample_in_view (pc\<lparr>progress_t := p\<rparr>) tr h pos t = sample_in_view pc tr h pos t"
  by (simp add: sample_in_view_def)

lemma scan_accept:
  "t \<le> getTotalDuration tr \<Longrightarrow> sample_in_view pc tr h pos t \<Longrightarrow>
   scan tr h pos speed pc t = scan tr h pos speed (pc\<lparr>progress_t := t\<rparr>) (t + 0.05)"
  by (subst scan_step) simp


lemma scan_done:
  "\<not> t \<le> getTotalDuration tr \<Longrightarrow> scan tr h pos speed pc t = pc"
  by (subst scan_step) simp

lemma scan_progress_ge:
  "progress_t pc \<le> t \<Longrightarrow> progress_t pc \<le> progress_t (scan tr h pos speed pc t)"
proof (induction tr h pos speed pc t rule: scan.induct)
  case (1 tr h pos speed pc t)
  show ?case
  proof (cases "t \<le> getTotalDuration tr \<and> sample_in_view pc tr h pos t")
    case True
    then have "progress_t (pc\<lparr>progress_t := t\<rparr>) \<le> progress_t (scan tr h pos speed (pc\<lparr>progress_t := t\<rparr>) (t + 0.05))"
      using "1.IH"[OF _ refl refl] by (simp add: sample_in_view_def)
    then show ?thesis using True "1.prems" by (subst scan_step) simp
  next
    case False
    then show ?thesis by (subst scan_step) auto
  qed
qed

lemma scan_progress_le:
  "progress_t pc \<le> getTotalDuration tr \<Longrightarrow> progress_t (scan tr h pos speed pc t) \<le> getTotalDuration tr"
proof (induction tr h pos speed pc t rule: scan.induct)
  case (1 tr h pos speed pc t)
  show ?case
  proof (cases "t \<le> getTotalDuration tr \<and> sample_in_view pc tr h pos t")
    case True
    then have "progress_t (scan tr h pos speed (pc\<lparr>progress_t := t\<rparr>) (t + 0.05)) \<le> getTotalDuration tr"
      using "1.IH"[OF _ refl refl] by (simp add: sample_in_view_def)
    then show ?thesis using True by (subst scan_step) simp
  next
    case False
    then show ?thesis using "1.prems" by (subst scan_step) auto
  qed
qed

lemma check_unfold:
  "check pc tr quat pos speed delta =
     scan tr (normalized (quat_rotate quat UnitX)) pos speed
       (pc\<lparr>progress_t := max (progress_t pc) delta\<rparr>) (max (progress_t pc) delta + 0.01)"
  by (simp add: check_def Let_def max_def)

lemma check_progress_ge: "max (progress_t pc) delta \<le> progress_t (check pc tr quat pos speed delta)"
proof -
  let ?pc1 = "pc\<lparr>progress_t := max (progress_t pc) delta\<rparr>"
  have "progress_t ?pc1 \<le> progress_t (scan tr (normalized (quat_rotate quat UnitX)) pos speed ?pc1 (progress_t ?pc1 + 0.01))"
    by (rule scan_progress_ge) simp
  then show ?thesis by (simp add: check_unfold)
qed

lemma check_progress_le:
  assumes "delta \<le> getTotalDuration tr" "progress_t pc \<le> getTotalDuration tr"
  shows "progress_t (check pc tr quat pos speed delta) \<le> getTotalDuration tr"
  unfolding check_unfold by (rule scan_progress_le) (use assms in simp)

lemma check_ticks_sorted: "sorted (map progress_t (pc # check_ticks pc tr ticks))"
proof (induction ticks arbitrary: pc)
  case Nil
  show ?case by simp
next
  case (Cons tk ticks)
  obtain quat pos speed delta where tk: "tk = (quat, pos, speed, delta)"
    by (cases tk) auto
  let ?pc' = "check pc tr quat pos speed delta"
  have "sorted (map progress_t (?pc' # check_ticks ?pc' tr ticks))"
    by (rule Cons.IH)
  moreover have "progress_t pc \<le> progress_t ?pc'"
    using check_progress_ge[of pc delta tr quat pos speed] by simp
  ultimately show ?case
    by (simp add: tk Let_def del: sorted_wrt.simps add: sorted2)
qed



section \<open>Facts about the example inputs\<close>

lemma line_traj_duration [simp]: "getTotalDuration (line_traj T) = T"
  by (simp add: line_traj_def getTotalDuration_def)

lemma line_traj_pos [simp]: "getPos (line_traj T) t = (t, 0, 0)"
  by (simp add: line_traj_def)

lemma line_traj_pieces [simp]: "getPieceNum (line_traj T) = 1"
  by (simp add: line_traj_def getPieceNum_def)

lemma getPieceNum_empty [simp]: "getPieceNum [] = 0"
  by (simp add: getPieceNum_def)

lemma vnorm_x_axis [simp]: "vnorm (a, 0, 0) = \<bar>a\<bar>"
  by (simp add: vnorm_def squaredNorm_def)

lemma normalized_x_axis: "normalized (a, 0, 0) = (if a = 0 then (0, 0, 0) else (a / \<bar>a\<bar>, 0, 0))"
  by (simp add: normalized_def squaredNorm_def)


lemma boresight_identity [simp]: "normalized (quat_rotate (1, 0, 0, 0) UnitX) = (1, 0, 0)"
  by (simp add: quat_rotate.simps UnitX_def normalized_x_axis)

lemma boresight_reversed [simp]: "normalized (quat_rotate (0, 0, 0, 1) UnitX) = (-1, 0, 0)"
  by (simp add: quat_rotate.simps UnitX_def normalized_x_axis)


lemma Pa_checker_simps [simp]:
  "progress_t (Pa_checker p al am md sf) = p"
  "angle (Pa_checker p al am md sf) = al"
  "a_max (Pa_checker p al am md sf) = am"
  "max_dist (Pa_checker p al am md sf) = md"
  "safe (Pa_checker p al am md sf) = sf"
  by (simp_all add: Pa_checker_def)

lemma failing_setup_env_simps [simp]:
  "planPath failing_setup_env a b m = [a, b]"
  "convexCover failing_setup_env r m = []"
  "shortCut failing_setup_env hs = hs"
  "gcopter_setup failing_setup_env a b hs = False"
  by (simp_all add: failing_setup_env_def)

lemma infinite_cost_env_simps [simp]:
  "planPath infinite_cost_env a b m = [a, b]"
  "convexCover infinite_cost_env r m = []"
  "shortCut infinite_cost_env hs = hs"
  "gcopter_setup infinite_cost_env a b hs = True"
  "gcopter_optimize infinite_cost_env a b hs tr = (Infinite, tr)"
  by (simp_all add: infinite_cost_env_def)

lemma flying_planner_simps [simp]:
  "mapInitialized (flying_planner m) = True"
  "voxelMap (flying_planner m) = m"
  "startGoal (flying_planner m) = [(0, 0, 1), (5, 0, 1)]"
  "traj (flying_planner m) = line_traj 10"
  "paChecker (flying_planner m) = Pa_checker 3 pi 4 4 True"
  "trajStamp (flying_planner m) = 50"
  "calls (flying_planner m) = []"
  "mapBound (config (flying_planner m)) = [-25, 25, -25, 25, 0, 5]"
  "dilateRadius (config (flying_planner m)) = 0.5"
  by (simp_all add: flying_planner_def)

lemma example_map_simps [simp]:
  "query free_map p = False"
  "query occupied_map p = True"
  by (simp_all add: free_map_def occupied_map_def)

lemma goal_msg_simps [simp]:
  "position_x goal_msg = 2"
  "position_y goal_msg = 3"
  "orientation_z goal_msg = 0"
  by (simp_all add: goal_msg_def)

section \<open>Properties of the checker\<close>

text \<open>
  C9. After \<^verbatim>\<open>clear()\<close>, whatever the state before, the progress marker is 0 and the
  safety flag is false, and the cone angle, the maximum range and the maximum deceleration
  are the ones from before.
\<close>

theorem clear_resets_progress_keeps_configuration:
  "progress_t (clear pc) = 0 \<and> safe (clear pc) = False
   \<and> angle (clear pc) = angle pc \<and> max_dist (clear pc) = max_dist pc \<and> a_max (clear pc) = a_max pc"
  by (simp add: clear_def)

text \<open>
  C8. If the elapsed time is beyond the progress marker before a call of \<^verbatim>\<open>check\<close>,
  the marker is at least the elapsed time after the call.
\<close>

theorem check_clamps_progress_to_elapsed:
  assumes "progress_t pc < delta"
  shows "delta \<le> progress_t (check pc tr quat pos speed delta)"
proof -
  let ?pc1 = "pc\<lparr>progress_t := max (progress_t pc) delta\<rparr>"
  have "progress_t ?pc1 \<le> progress_t (scan tr (normalized (quat_rotate quat UnitX)) pos speed ?pc1 (progress_t ?pc1 + 0.01))"
    by (rule scan_progress_ge) simp
  then show ?thesis using assms by (simp add: check_unfold)
qed

text \<open>
  At the marker 0 and the elapsed time 0.5 on the ten-second line, the marker after the
  call is at least 0.5.
\<close>

theorem check_clamps_progress_to_elapsed_witness:
  "progress_t (Pa_checker 0 pi 4 4 False) < 0.5
   \<and> 0.5 \<le> progress_t (check (Pa_checker 0 pi 4 4 False) (line_traj 10) (1, 0, 0, 0) (0.5, 0, 0) 1 0.5)"
  using check_clamps_progress_to_elapsed
    [of "Pa_checker 0 pi 4 4 False" "0.5" "line_traj 10" "(1, 0, 0, 0)" "(0.5, 0, 0)" 1]
  by simp

text \<open>
  C10. When the elapsed time lies between 0 and the total duration and the marker is at
  most the total duration before a call of \<^verbatim>\<open>check\<close>, the marker after the call lies
  between the elapsed time and the total duration, so the position that the
  stopping-distance test reads at the marker is a position of the trajectory; and the
  marker after the call is at least the marker before it, also when the elapsed time is
  behind the marker.
\<close>

theorem check_progress_within_elapsed_and_duration:
  assumes "0 \<le> delta" "delta \<le> getTotalDuration tr" "progress_t pc \<le> getTotalDuration tr"
  shows "0 \<le> progress_t (check pc tr quat pos speed delta)
         \<and> delta \<le> progress_t (check pc tr quat pos speed delta)
         \<and> progress_t (check pc tr quat pos speed delta) \<le> getTotalDuration tr
         \<and> progress_t pc \<le> progress_t (check pc tr quat pos speed delta)"
  using check_progress_ge[of pc delta tr quat pos speed] check_progress_le[OF assms(2,3), of quat pos speed] assms(1)
  by simp

text \<open>
  At the marker 2 and the elapsed time 0.5 on the ten-second line, the marker after the
  call is between 2 and 10.
\<close>

theorem check_progress_within_elapsed_and_duration_witness:
  "(0::real) \<le> 0.5 \<and> 0.5 \<le> getTotalDuration (line_traj 10)
   \<and> progress_t (Pa_checker 2 pi 4 4 False) \<le> getTotalDuration (line_traj 10)
   \<and> 0.5 \<le> progress_t (check (Pa_checker 2 pi 4 4 False) (line_traj 10) (1, 0, 0, 0) (0.5, 0, 0) 1 0.5)
   \<and> progress_t (check (Pa_checker 2 pi 4 4 False) (line_traj 10) (1, 0, 0, 0) (0.5, 0, 0) 1 0.5) \<le> 10
   \<and> 2 \<le> progress_t (check (Pa_checker 2 pi 4 4 False) (line_traj 10) (1, 0, 0, 0) (0.5, 0, 0) 1 0.5)"
  using check_progress_within_elapsed_and_duration
    [of "0.5" "line_traj 10" "Pa_checker 2 pi 4 4 False" "(1, 0, 0, 0)" "(0.5, 0, 0)" 1]
  by simp

text \<open>
  C7. Over any sequence of calls of \<^verbatim>\<open>check\<close> on one trajectory with elapsed times that
  do not decrease, the marker after each call is at least the marker after the call before
  it: the markers, starting with the one before the first call, are sorted. The proof does
  not use the order of the elapsed times.
\<close>

theorem progress_never_decreases_over_ticks:
  assumes "sorted (map elapsed ticks)"
  shows "sorted (map progress_t (pc # check_ticks pc tr ticks))"
  by (rule check_ticks_sorted)

text \<open>
  Two ticks at the elapsed times 0.1 and 0.2, the second with the boresight reversed.
\<close>

theorem progress_never_decreases_over_ticks_witness:
  "sorted (map elapsed [((1, 0, 0, 0), (0.1, 0, 0), 1, 0.1), ((0, 0, 0, 1), (0.2, 0, 0), 1, 0.2)])
   \<and> sorted (map progress_t
        (Pa_checker 0 pi 4 4 False
         # check_ticks (Pa_checker 0 pi 4 4 False) (line_traj 10)
             [((1, 0, 0, 0), (0.1, 0, 0), 1, 0.1), ((0, 0, 0, 1), (0.2, 0, 0), 1, 0.2)]))"
proof -
  have s: "sorted (map elapsed [((1, 0, 0, 0), (0.1, 0, 0), 1, 0.1), ((0, 0, 0, 1), (0.2, 0, 0), 1, (0.2::real))])"
    by simp
  show ?thesis
    using progress_never_decreases_over_ticks [OF s, of "Pa_checker 0 pi 4 4 False" "line_traj 10"] s
    by blast
qed







text \<open>
  C6. The claim asks that after any call of \<^verbatim>\<open>check\<close> at the speed 0 the flag is true,
  and that after any call with the distance 0 and a positive speed it is false. A call
  whose loop meets no failing sample stores no decision. With the checker as the planner
  constructs it (marker 0, angle 40, deceleration 4, range 4, flag false) on the
  one-second line at the elapsed time 0.995, the first sample time 1.005 is beyond the
  duration: the call at the speed 0 leaves the flag false. With the flag true before, the
  call at the speed 1 with the vehicle at the trajectory's position for the marker, at the
  distance 0, leaves the flag true.
\<close>

theorem check_without_failing_sample_stores_no_decision:
  "check (Pa_checker 0 40 4 4 False) (line_traj 1) (1, 0, 0, 0) (0.995, 0, 0) 0 0.995
     = \<lparr>progress_t = 0.995, a_max = 4, max_dist = 4, safe = False, angle = 40\<rparr>
   \<and> check (Pa_checker 0 40 4 4 True) (line_traj 1) (1, 0, 0, 0) (0.995, 0, 0) 1 0.995
     = \<lparr>progress_t = 0.995, a_max = 4, max_dist = 4, safe = True, angle = 40\<rparr>
   \<and> vnorm (vsub (getPos (line_traj 1) 0.995) (0.995, 0, 0)) = 0"
  by (simp add: check_unfold scan_done Pa_checker_def)

text \<open>
  C2. The claim asks that every call of \<^verbatim>\<open>check\<close> stores the result of the
  stopping-distance test in the flag. The loop stores it only in the branch of a failing
  sample. On the one-second line, from the elapsed time 0.9 with the boresight along the
  line, the samples at 0.91 and 0.96 pass and the next one is beyond the duration: the
  marker moves to 0.96 and the flag keeps its old value. At the speed 0 a flag that was
  false stays false where the stopping-distance test at the new marker gives true; at the
  speed 1 a flag that was true stays true where the test gives false.
\<close>

theorem check_leaves_safe_stale_when_every_sample_passes:
  "check (Pa_checker 0 pi 4 4 False) (line_traj 1) (1, 0, 0, 0) (0.9, 0, 0) 0 0.9
     = \<lparr>progress_t = 0.96, a_max = 4, max_dist = 4, safe = False, angle = pi\<rparr>
   \<and> stopping_test (check (Pa_checker 0 pi 4 4 False) (line_traj 1) (1, 0, 0, 0) (0.9, 0, 0) 0 0.9)
         (line_traj 1) (0.9, 0, 0) 0 = True
   \<and> check (Pa_checker 0 pi 4 4 True) (line_traj 1) (1, 0, 0, 0) (0.9, 0, 0) 1 0.9
     = \<lparr>progress_t = 0.96, a_max = 4, max_dist = 4, safe = True, angle = pi\<rparr>
   \<and> stopping_test (check (Pa_checker 0 pi 4 4 True) (line_traj 1) (1, 0, 0, 0) (0.9, 0, 0) 1 0.9)
         (line_traj 1) (0.9, 0, 0) 1 = False"
  by (simp add: check_unfold scan_accept scan_done sample_in_view_def normalized_x_axis
      stopping_test_def Pa_checker_def)

section \<open>Properties of the planner\<close>

text \<open>
  C4, amended. A goal request at a point that the map reports as occupied, on an
  initialised map, adds no point to the goal buffer and calls no collaborator but the
  warning: no route search, corridor construction or optimization is started. The buffer
  keeps its points when it holds fewer than two and is emptied when it holds two or more,
  since the buffer is cleared before the point is validated. The trajectory, its start
  time, the checker, the map and the configuration are unchanged.
\<close>

theorem rejected_goal_adds_nothing_and_plans_nothing:
  assumes "mapInitialized gp"
    and "query (voxelMap gp)
           (position_x msg, position_y msg,
            mapBound (config gp) ! 4 + dilateRadius (config gp)
            + \<bar>orientation_z msg\<bar>
              * (mapBound (config gp) ! 5 - mapBound (config gp) ! 4 - 2 * dilateRadius (config gp)))"
  shows "targetCallBack env gp msg =
           gp\<lparr>startGoal := (if length (startGoal gp) \<ge> 2 then [] else startGoal gp),
              calls := calls gp @ [CallRosWarn]\<rparr>"
  using assms by (simp add: targetCallBack_def plan_def called_def Let_def)

text \<open>
  A request on the map that is occupied everywhere, with two goals buffered.
\<close>

theorem rejected_goal_adds_nothing_and_plans_nothing_witness:
  "mapInitialized (flying_planner occupied_map)
   \<and> query (voxelMap (flying_planner occupied_map)) (2, 3, 0.5)
   \<and> targetCallBack failing_setup_env (flying_planner occupied_map) goal_msg
       = (flying_planner occupied_map)\<lparr>startGoal := [], calls := [CallRosWarn]\<rparr>"
  using rejected_goal_adds_nothing_and_plans_nothing
    [of "flying_planner occupied_map" goal_msg failing_setup_env]
  by simp

text \<open>
  The claim as it was stated, that the size of the goal buffer is unchanged, fails when
  two goals are buffered: the rejected request leaves the buffer empty.
\<close>

theorem rejected_goal_empties_full_buffer:
  "mapInitialized (flying_planner occupied_map)
   \<and> query (voxelMap (flying_planner occupied_map)) (2, 3, 0.5)
   \<and> length (startGoal (flying_planner occupied_map)) = 2
   \<and> length (startGoal (targetCallBack failing_setup_env (flying_planner occupied_map) goal_msg)) = 0"
  by (simp add: targetCallBack_def plan_def called_def Let_def)

text \<open>
  C1, amended. The planner clears the trajectory and the checker before it calls
  \<^verbatim>\<open>gcopter.setup\<close>. When two goals are buffered, the route has more than one point
  and the setup fails or the optimizer returns an infinite cost, the recorded start time
  is unchanged and the checker is the cleared one (marker 0, flag false); after a failed
  setup the planner holds the empty trajectory, and after an infinite cost it holds what
  the optimizer has written into the emptied trajectory.
\<close>

theorem failed_planning_clears_trajectory_and_checker:
  fixes env :: planner_env and gp :: global_planner
  defines "route \<equiv> planPath env (startGoal gp ! 0) (startGoal gp ! 1) (voxelMap gp)"
  defines "hPolys \<equiv> shortCut env (convexCover env route (voxelMap gp))"
  assumes "length (startGoal gp) = 2" and "length route > 1"
    and "\<not> gcopter_setup env (hd route) (last route) hPolys
         \<or> isinf (fst (gcopter_optimize env (hd route) (last route) hPolys []))"
  shows "trajStamp (plan env gp) = trajStamp gp
         \<and> paChecker (plan env gp) = clear (paChecker gp)
         \<and> progress_t (paChecker (plan env gp)) = 0
         \<and> safe (paChecker (plan env gp)) = False
         \<and> traj (plan env gp) =
             (if \<not> gcopter_setup env (hd route) (last route) hPolys then []
              else snd (gcopter_optimize env (hd route) (last route) hPolys []))"
  using assms
  by (auto simp add: plan_def called_def Let_def traj_clear_def clear_def split: prod.splits)

text \<open>
  The planner that is flying the ten-second line with the marker 3, once with
  collaborators whose setup fails and once with collaborators whose optimizer returns an
  infinite cost and leaves the emptied trajectory as it is.
\<close>

theorem failed_planning_clears_trajectory_and_checker_witness:
  "length (startGoal (flying_planner free_map)) = 2
   \<and> getPieceNum (traj (flying_planner free_map)) = 1
   \<and> gcopter_setup failing_setup_env (0, 0, 1) (5, 0, 1) [] = False
   \<and> trajStamp (plan failing_setup_env (flying_planner free_map)) = 50
   \<and> progress_t (paChecker (plan failing_setup_env (flying_planner free_map))) = 0
   \<and> safe (paChecker (plan failing_setup_env (flying_planner free_map))) = False
   \<and> traj (plan failing_setup_env (flying_planner free_map)) = []
   \<and> gcopter_setup infinite_cost_env (0, 0, 1) (5, 0, 1) [] = True
   \<and> isinf (fst (gcopter_optimize infinite_cost_env (0, 0, 1) (5, 0, 1) [] [])) = True
   \<and> trajStamp (plan infinite_cost_env (flying_planner free_map)) = 50
   \<and> progress_t (paChecker (plan infinite_cost_env (flying_planner free_map))) = 0
   \<and> safe (paChecker (plan infinite_cost_env (flying_planner free_map))) = False
   \<and> traj (plan infinite_cost_env (flying_planner free_map)) = []"
  using failed_planning_clears_trajectory_and_checker [of "flying_planner free_map" failing_setup_env]
    failed_planning_clears_trajectory_and_checker [of "flying_planner free_map" infinite_cost_env]
  by (simp add: clear_def)

text \<open>
  The claim as it was stated, that the trajectory stays installed and the checker's state
  is unchanged, fails: before the failed attempt the planner holds a trajectory of one
  piece and the checker has the marker 3 and the flag true; after it the trajectory has no
  piece, the marker is 0 and the flag is false.
\<close>

theorem failed_planning_drops_previous_trajectory:
  "length (startGoal (flying_planner free_map)) = 2
   \<and> gcopter_setup failing_setup_env (0, 0, 1) (5, 0, 1) [] = False
   \<and> getPieceNum (traj (flying_planner free_map)) = 1
   \<and> progress_t (paChecker (flying_planner free_map)) = 3
   \<and> safe (paChecker (flying_planner free_map)) = True
   \<and> getPieceNum (traj (plan failing_setup_env (flying_planner free_map))) = 0
   \<and> progress_t (paChecker (plan failing_setup_env (flying_planner free_map))) = 0
   \<and> safe (paChecker (plan failing_setup_env (flying_planner free_map))) = False
   \<and> calls (plan failing_setup_env (flying_planner free_map))
       = [CallPlanPath (0, 0, 1) (5, 0, 1), CallConvexCover, CallShortCut, CallVisualizePolytope, CallSetup]"
  by (simp add: plan_def called_def traj_clear_def clear_def Let_def)

end
